theory Spec2Isabelle
  imports Complex_Main
begin

section \<open>Numbers, errors and the ordered map\<close>

text \<open>
  The solver computes with JavaScript numbers. They are modelled as real numbers: every
  sum, product and quotient below is the exact one, and rounding is outside of the
  model. The only division whose divisor the code does not test is the one of
  \<open>Row.solveFor\<close>; a zero divisor there is reported as \<open>NonFinite\<close>, since the
  infinity that JavaScript continues with is no real number.

  Every \<open>throw\<close> of the source is a constructor of \<open>error\<close>. \<open>TypeError\<close> is the
  error that JavaScript itself raises: \<open>Array.prototype.reduce\<close> on an empty array
  without an initial value, and a property read on \<open>undefined\<close>.
\<close>

datatype error =
    DuplicateConstraint       \<comment> \<open>"duplicate constraint"\<close>
  | UnknownConstraint         \<comment> \<open>"unknown constraint"\<close>
  | UnsatisfiableConstraint   \<comment> \<open>"unsatisfiable constraint"\<close>
  | DuplicateEditVariable     \<comment> \<open>"duplicate edit variable"\<close>
  | UnknownEditVariable       \<comment> \<open>"unknown edit variable"\<close>
  | BadRequiredStrength       \<comment> \<open>"bad strength"\<close>
  | UnboundedObjective        \<comment> \<open>"the objective is unbounded"\<close>
  | FailedToFindLeavingRow    \<comment> \<open>"failed to find leaving row"\<close>
  | DualOptimizeFailed        \<comment> \<open>"dual optimize failed"\<close>
  | ArrayLength               \<comment> \<open>"array must have length 2"\<close>
  | ArrayItem0                \<comment> \<open>"array item 0 must be a number"\<close>
  | ArrayItem1                \<comment> \<open>"array item 1 must be a variable or expression"\<close>
  | InvalidArgument           \<comment> \<open>"invalid Expression argument: ..."\<close>
  | TypeError
  | NonFinite

text \<open>\<open>nearZero\<close> (row.ts, lines 8-11, and both copies of solver.ts).\<close>

definition eps :: real where
  "eps = 1 / 100000000"

definition nearZero :: "real \<Rightarrow> bool" where
  "nearZero v = (if v < 0 then - v < eps else v < eps)"

text \<open>\<open>Number.MAX_VALUE\<close>, the largest finite double.\<close>

definition MAX_VALUE :: real where
  "MAX_VALUE = (2 ^ 53 - 1) * 2 ^ 971"

text \<open>
  Modelled from the spec: \<open>maptype.ts\<close> (\<open>createMap\<close>, \<open>IMap\<close>) is imported by every
  source file and is not part of the sources. The spec describes each such map as a
  mapping ordered by the id of its keys, iterated in that order, with unique keys. The
  map is therefore a list of pairs, kept sorted by the id of the key; two keys are the
  same key when their ids are equal, as the \<open>Compare\<close> functions given to
  \<open>createMap\<close> say (\<open>a.id - b.id\<close>). For the operations the sources call:
  \<^item> \<open>find\<close> returns the stored pair, or \<open>undefined\<close> (\<open>None\<close>);
  \<^item> \<open>insert\<close> stores a pair, replacing the value of a key already there;
  \<^item> \<open>erase\<close> removes a key and returns the pair it removed, or \<open>undefined\<close>;
  \<^item> \<open>setDefault\<close> returns the pair stored for the key and stores the given default
    first when the key is absent (\<open>_getVarISymbol\<close>: "If a symbol does not exist for
    the variable, one will be created"). The default is given as a value in row.ts and
    the first solver.ts, and as a function returning it elsewhere; the model takes the
    value;
  \<^item> \<open>itemAt\<close>, \<open>size\<close>, \<open>empty\<close>, \<open>map\<close> and \<open>copy\<close> are those of the list of pairs;
    a callback that assigns to \<open>pair.second\<close> updates the stored value.
\<close>

type_synonym ('k, 'v) IMap = "('k \<times> 'v) list"

fun imap_find :: "('k \<Rightarrow> int) \<Rightarrow> 'k \<Rightarrow> ('k, 'v) IMap \<Rightarrow> ('k \<times> 'v) option" where
  "imap_find idf k [] = None"
| "imap_find idf k (p # ps) = (if idf (fst p) = idf k then Some p else imap_find idf k ps)"

fun imap_insert :: "('k \<Rightarrow> int) \<Rightarrow> 'k \<Rightarrow> 'v \<Rightarrow> ('k, 'v) IMap \<Rightarrow> ('k, 'v) IMap" where
  "imap_insert idf k v [] = [(k, v)]"
| "imap_insert idf k v (p # ps) =
     (if idf k < idf (fst p) then (k, v) # p # ps
      else if idf k = idf (fst p) then (fst p, v) # ps
      else p # imap_insert idf k v ps)"

fun imap_erase :: "('k \<Rightarrow> int) \<Rightarrow> 'k \<Rightarrow> ('k, 'v) IMap \<Rightarrow> ('k, 'v) IMap" where
  "imap_erase idf k [] = []"
| "imap_erase idf k (p # ps) = (if idf (fst p) = idf k then ps else p # imap_erase idf k ps)"

definition imap_contains :: "('k \<Rightarrow> int) \<Rightarrow> 'k \<Rightarrow> ('k, 'v) IMap \<Rightarrow> bool" where
  "imap_contains idf k m = (imap_find idf k m \<noteq> None)"

definition imap_setDefault ::
  "('k \<Rightarrow> int) \<Rightarrow> 'k \<Rightarrow> 'v \<Rightarrow> ('k, 'v) IMap \<Rightarrow> ('k \<times> 'v) \<times> ('k, 'v) IMap" where
  "imap_setDefault idf k d m =
     (case imap_find idf k m of
        Some p \<Rightarrow> (p, m)
      | None \<Rightarrow> ((k, d), imap_insert idf k d m))"

section \<open>Strength (strength.ts)\<close>

definition create :: "real \<Rightarrow> real \<Rightarrow> real \<Rightarrow> real \<Rightarrow> real" where
  "create a b c w =
     max 0 (min 1000 (a * w)) * 1000000
     + max 0 (min 1000 (b * w)) * 1000
     + max 0 (min 1000 (c * w))"

definition required :: real where
  "required = create 1000 1000 1000 1"

definition strong :: real where
  "strong = create 1 0 0 1"

definition medium :: real where
  "medium = create 0 1 0 1"

definition weak :: real where
  "weak = create 0 0 1 1"

definition clip :: "real \<Rightarrow> real" where
  "clip v = max 0 (min required v)"

section \<open>Symbols (isymbol.ts) and rows (row.ts)\<close>

datatype ISymbolType = Invalid | External | Slack | Error | Dummy

record ISymbol =
  sym_type :: ISymbolType
  sym_id :: int

definition INVALID_SYMBOL :: ISymbol where
  "INVALID_SYMBOL = \<lparr>sym_type = Invalid, sym_id = - 1\<rparr>"

record Row =
  row_constant :: real
  cells :: "(ISymbol, real) IMap"

definition Row_new :: "real \<Rightarrow> Row" where
  "Row_new c = \<lparr>row_constant = c, cells = []\<rparr>"

definition isConstant :: "Row \<Rightarrow> bool" where
  "isConstant r = (cells r = [])"

text \<open>
  \<open>Array.prototype.reduce\<close> with a callback and no initial value: the first element
  starts the accumulation, and an empty array is a \<open>TypeError\<close>.
\<close>

definition reduce :: "('a \<Rightarrow> 'a \<Rightarrow> 'a) \<Rightarrow> 'a list \<Rightarrow> error + 'a" where
  "reduce f xs = (case xs of [] \<Rightarrow> Inl TypeError | x # rest \<Rightarrow> Inr (foldl f x rest))"

text \<open>\<open>Row.allDummies\<close> of row.ts (lines 34-38): a \<open>map\<close> followed by a \<open>reduce\<close>.\<close>

definition allDummies :: "Row \<Rightarrow> error + bool" where
  "allDummies r =
     reduce (\<lambda>a b. a \<and> b) (map (\<lambda>pair. sym_type (fst pair) = Dummy) (cells r))"

text \<open>
  \<open>Row.allDummies\<close> of the \<open>Row\<close> class inside the second copy of solver.ts
  (lines 1603-1612): a loop that returns at the first symbol that is no dummy.
\<close>

fun allDummies_loop :: "(ISymbol, real) IMap \<Rightarrow> bool" where
  "allDummies_loop [] = True"
| "allDummies_loop (pair # rest) =
     (if sym_type (fst pair) \<noteq> Dummy then False else allDummies_loop rest)"

definition allDummies_copy2 :: "Row \<Rightarrow> bool" where
  "allDummies_copy2 r = allDummies_loop (cells r)"

definition copy :: "Row \<Rightarrow> Row" where
  "copy r = \<lparr>row_constant = row_constant r, cells = cells r\<rparr>"

text \<open>\<open>Row.add\<close> returns the new constant; the model returns it with the updated row.\<close>

definition add :: "real \<Rightarrow> Row \<Rightarrow> real \<times> Row" where
  "add v r = (row_constant r + v, r\<lparr>row_constant := row_constant r + v\<rparr>)"

text \<open>
  \<open>Row.insertISymbol\<close> of row.ts (lines 65-68): the coefficient is the default handed
  to \<open>setDefault\<close>, and the value of the pair that comes back is tested, not changed.
\<close>

definition insertISymbol :: "ISymbol \<Rightarrow> real \<Rightarrow> Row \<Rightarrow> Row" where
  "insertISymbol symbol coefficient r =
     (case imap_setDefault sym_id symbol coefficient (cells r) of
        (pair, cells') \<Rightarrow>
          if nearZero (snd pair) then r\<lparr>cells := imap_erase sym_id symbol cells'\<rparr>
          else r\<lparr>cells := cells'\<rparr>)"

text \<open>
  \<open>Row.insertISymbol\<close> of the \<open>Row\<close> class inside the second copy of solver.ts
  (lines 1639-1644): the default is 0 and the coefficient is added to the pair.
\<close>

definition insertISymbol_copy2 :: "ISymbol \<Rightarrow> real \<Rightarrow> Row \<Rightarrow> Row" where
  "insertISymbol_copy2 symbol coefficient r =
     (case imap_setDefault sym_id symbol 0 (cells r) of
        (pair, cells') \<Rightarrow>
          if nearZero (snd pair + coefficient) then r\<lparr>cells := imap_erase sym_id symbol cells'\<rparr>
          else r\<lparr>cells := imap_insert sym_id symbol (snd pair + coefficient) cells'\<rparr>)"

definition insertRow :: "Row \<Rightarrow> real \<Rightarrow> Row \<Rightarrow> Row" where
  "insertRow other coefficient r =
     fold (\<lambda>pair acc. insertISymbol (fst pair) (snd pair * coefficient) acc)
       (cells other) (r\<lparr>row_constant := row_constant r + row_constant other * coefficient\<rparr>)"

definition removeISymbol :: "ISymbol \<Rightarrow> Row \<Rightarrow> Row" where
  "removeISymbol symbol r = r\<lparr>cells := imap_erase sym_id symbol (cells r)\<rparr>"

definition reverseSign :: "Row \<Rightarrow> Row" where
  "reverseSign r =
     \<lparr>row_constant = - row_constant r, cells = map (\<lambda>pair. (fst pair, - snd pair)) (cells r)\<rparr>"

text \<open>
  \<open>Row.solveFor\<close>: \<open>erase\<close> returns \<open>undefined\<close> for a symbol that is not in the row,
  and reading \<open>pair.second\<close> is then a \<open>TypeError\<close>.
\<close>

definition solveFor :: "ISymbol \<Rightarrow> Row \<Rightarrow> error + Row" where
  "solveFor symbol r =
     (case imap_find sym_id symbol (cells r) of
        None \<Rightarrow> Inl TypeError
      | Some pair \<Rightarrow>
          if snd pair = 0 then Inl NonFinite
          else let coeff = - 1 / snd pair in
            Inr \<lparr>row_constant = row_constant r * coeff,
                 cells = map (\<lambda>p. (fst p, snd p * coeff)) (imap_erase sym_id symbol (cells r))\<rparr>)"

definition solveForEx :: "ISymbol \<Rightarrow> ISymbol \<Rightarrow> Row \<Rightarrow> error + Row" where
  "solveForEx lhs rhs r = solveFor rhs (insertISymbol lhs (- 1) r)"

definition coefficientFor :: "ISymbol \<Rightarrow> Row \<Rightarrow> real" where
  "coefficientFor symbol r =
     (case imap_find sym_id symbol (cells r) of Some pair \<Rightarrow> snd pair | None \<Rightarrow> 0)"

definition substitute :: "ISymbol \<Rightarrow> Row \<Rightarrow> Row \<Rightarrow> Row" where
  "substitute symbol row r =
     (case imap_find sym_id symbol (cells r) of
        Some pair \<Rightarrow> insertRow row (snd pair) (r\<lparr>cells := imap_erase sym_id symbol (cells r)\<rparr>)
      | None \<Rightarrow> r)"

section \<open>Variables, expressions and constraints (variable.ts, expression.ts, constraint.ts)\<close>

text \<open>
  A \<open>Variable\<close> is an object that the user, the expressions and the solver share; its
  identity is its id. The model keeps the id and the name in the record and the mutable
  field \<open>value\<close> in a store from ids to numbers, so that every holder of the variable
  sees the value that \<open>updateVariables\<close> writes.
\<close>

record Variable =
  var_id :: int
  var_name :: string

type_synonym valuation = "int \<Rightarrow> real"

record Expression =
  expr_terms :: "(Variable, real) IMap"
  expr_constant :: real

text \<open>What an element of the \<open>any[]\<close> given to the \<open>Expression\<close> constructor can be.\<close>

datatype Arg = Num real | Var Variable | Expr Expression | Arr "Arg list" | Other

text \<open>
  \<open>parseArgs\<close> (expression.ts): the loop over the arguments. Each term goes through
  \<open>terms.setDefault\<close> with its coefficient as the default, and the pair that comes
  back is not used.
\<close>

definition setDefault_terms ::
  "real \<Rightarrow> (Variable, real) IMap \<Rightarrow> (Variable, real) IMap \<Rightarrow> (Variable, real) IMap" where
  "setDefault_terms value terms2 terms =
     fold (\<lambda>termPair acc. snd (imap_setDefault var_id (fst termPair) (snd termPair * value) acc))
       terms2 terms"

fun parseArgs_loop :: "Arg list \<Rightarrow> (Variable, real) IMap \<Rightarrow> real \<Rightarrow> error + Expression" where
  "parseArgs_loop [] terms constant' = Inr \<lparr>expr_terms = terms, expr_constant = constant'\<rparr>"
| "parseArgs_loop (Num item # rest) terms constant' =
     parseArgs_loop rest terms (constant' + item)"
| "parseArgs_loop (Var item # rest) terms constant' =
     parseArgs_loop rest (snd (imap_setDefault var_id item 1 terms)) constant'"
| "parseArgs_loop (Expr item # rest) terms constant' =
     parseArgs_loop rest (setDefault_terms 1 (expr_terms item) terms)
       (constant' + expr_constant item)"
| "parseArgs_loop (Arr item # rest) terms constant' =
     (if length item \<noteq> 2 then Inl ArrayLength
      else case item ! 0 of
        Num value \<Rightarrow>
          (case item ! 1 of
             Var value2 \<Rightarrow>
               parseArgs_loop rest (snd (imap_setDefault var_id value2 value terms)) constant'
           | Expr value2 \<Rightarrow>
               parseArgs_loop rest (setDefault_terms value (expr_terms value2) terms)
                 (constant' + expr_constant value2 * value)
           | _ \<Rightarrow> Inl ArrayItem1)
      | _ \<Rightarrow> Inl ArrayItem0)"
| "parseArgs_loop (Other # rest) terms constant' = Inl InvalidArgument"

definition parseArgs :: "Arg list \<Rightarrow> error + Expression" where
  "parseArgs args = parseArgs_loop args [] 0"

definition Expression_new :: "Arg list \<Rightarrow> error + Expression" where
  "Expression_new args = parseArgs args"

text \<open>The getter \<open>Expression.value\<close> (expression.ts): constant plus a \<open>reduce\<close> of the products.\<close>

definition Expression_value :: "valuation \<Rightarrow> Expression \<Rightarrow> error + real" where
  "Expression_value vals e =
     (case reduce (\<lambda>a b. a + b) (map (\<lambda>p. vals (var_id (fst p)) * snd p) (expr_terms e)) of
        Inl err \<Rightarrow> Inl err
      | Inr acc \<Rightarrow> Inr (expr_constant e + acc))"

definition Expression_isConstant :: "Expression \<Rightarrow> bool" where
  "Expression_isConstant e = (length (expr_terms e) = 0)"

text \<open>
  \<open>plus\<close>, \<open>minus\<close>, \<open>multiply\<close> and \<open>divide\<close> are the same for \<open>Variable\<close> and
  \<open>Expression\<close>; the receiver is given as an argument (\<open>Var v\<close> or \<open>Expr e\<close>).
\<close>

definition Expression_plus :: "Arg \<Rightarrow> Arg \<Rightarrow> error + Expression" where
  "Expression_plus this value = Expression_new [this, value]"

definition Expression_minus :: "Arg \<Rightarrow> Arg \<Rightarrow> error + Expression" where
  "Expression_minus this value =
     Expression_new [this, (case value of Num n \<Rightarrow> Num (- n) | _ \<Rightarrow> Arr [Num (- 1), value])]"

definition Expression_multiply :: "Arg \<Rightarrow> real \<Rightarrow> error + Expression" where
  "Expression_multiply this coefficient = Expression_new [Arr [Num coefficient, this]]"

datatype Operator = Le | Ge | Eq

record Constraint =
  expression :: Expression
  operator :: Operator
  strength :: real
  cn_id :: int

text \<open>
  The constructor of \<open>Constraint\<close>; the id comes from the counter \<open>CnId\<close> and is given
  by the caller. An absent \<open>rhs\<close> is \<open>None\<close>; \<open>minus\<close> then receives \<open>undefined\<close>.
\<close>

definition Constraint_new ::
  "int \<Rightarrow> Arg \<Rightarrow> Operator \<Rightarrow> Arg option \<Rightarrow> real \<Rightarrow> error + Constraint" where
  "Constraint_new cid lhs op rhs str =
     (case (rhs, lhs) of
        (None, Expr e) \<Rightarrow>
          Inr \<lparr>expression = e, operator = op, strength = clip str, cn_id = cid\<rparr>
      | _ \<Rightarrow>
          (case Expression_minus lhs (case rhs of None \<Rightarrow> Other | Some v \<Rightarrow> v) of
             Inl err \<Rightarrow> Inl err
           | Inr e \<Rightarrow> Inr \<lparr>expression = e, operator = op, strength = clip str, cn_id = cid\<rparr>))"

section \<open>The solver (solver.ts, first copy, with row.ts and isymbol.ts)\<close>

record ITag =
  marker :: ISymbol
  other :: ISymbol

record IEditInfo =
  tag :: ITag
  constraint :: Constraint
  edit_constant :: real

record Solver =
  constraints :: "(Constraint, ITag) IMap"
  rows :: "(ISymbol, Row) IMap"
  vars :: "(Variable, ISymbol) IMap"
  edits :: "(Variable, IEditInfo) IMap"
  infeasibleRows :: "ISymbol list"
  objective :: Row
  artificial :: "Row option"
  idTick :: int

definition Solver_new :: Solver where
  "Solver_new =
     \<lparr>constraints = [], rows = [], vars = [], edits = [], infeasibleRows = [],
      objective = Row_new 0, artificial = None, idTick = 0\<rparr>"

text \<open>
  A failing operation leaves the solver as it was at the \<open>throw\<close>: every operation
  returns the solver together with its error or result.
\<close>

type_synonym 'a outcome = "(error + 'a) \<times> Solver"

definition makeISymbol :: "ISymbolType \<Rightarrow> Solver \<Rightarrow> ISymbol \<times> Solver" where
  "makeISymbol t s = (\<lparr>sym_type = t, sym_id = idTick s\<rparr>, s\<lparr>idTick := idTick s + 1\<rparr>)"

definition getVarISymbol :: "Variable \<Rightarrow> Solver \<Rightarrow> ISymbol \<times> Solver" where
  "getVarISymbol variable s =
     (case makeISymbol External s of
        (symbol, s1) \<Rightarrow>
          (case imap_setDefault var_id variable symbol (vars s1) of
             (pair, vars') \<Rightarrow> (snd pair, s1\<lparr>vars := vars'\<rparr>)))"

fun createRow_terms :: "(Variable, real) IMap \<Rightarrow> Row \<Rightarrow> Solver \<Rightarrow> Row \<times> Solver" where
  "createRow_terms [] row s = (row, s)"
| "createRow_terms (termPair # rest) row s =
     (if \<not> nearZero (snd termPair) then
        (case getVarISymbol (fst termPair) s of
           (symbol, s1) \<Rightarrow>
             (case imap_find sym_id symbol (rows s1) of
                Some basicPair \<Rightarrow>
                  createRow_terms rest (insertRow (snd basicPair) (snd termPair) row) s1
              | None \<Rightarrow>
                  createRow_terms rest (insertISymbol symbol (snd termPair) row) s1))
      else createRow_terms rest row s)"

definition createRow_symbols :: "Constraint \<Rightarrow> Row \<Rightarrow> Solver \<Rightarrow> Row \<times> ITag \<times> Solver" where
  "createRow_symbols cn row s =
     (if operator cn = Le \<or> operator cn = Ge then
        (let coeff = (if operator cn = Le then 1 else - 1) in
         case makeISymbol Slack s of
           (slack, s1) \<Rightarrow>
             (let row1 = insertISymbol slack coeff row in
              if strength cn < required then
                (case makeISymbol Error s1 of
                   (error, s2) \<Rightarrow>
                     (insertISymbol error (- coeff) row1,
                      \<lparr>marker = slack, other = error\<rparr>,
                      s2\<lparr>objective := insertISymbol error (strength cn) (objective s2)\<rparr>))
              else (row1, \<lparr>marker = slack, other = INVALID_SYMBOL\<rparr>, s1)))
      else
        (if strength cn < required then
           (case makeISymbol Error s of
              (errplus, s1) \<Rightarrow>
                (case makeISymbol Error s1 of
                   (errminus, s2) \<Rightarrow>
                     (insertISymbol errminus 1 (insertISymbol errplus (- 1) row),
                      \<lparr>marker = errplus, other = errminus\<rparr>,
                      s2\<lparr>objective :=
                           insertISymbol errminus (strength cn)
                             (insertISymbol errplus (strength cn) (objective s2))\<rparr>)))
         else
           (case makeISymbol Dummy s of
              (dummy, s1) \<Rightarrow>
                (insertISymbol dummy 1 row, \<lparr>marker = dummy, other = INVALID_SYMBOL\<rparr>, s1))))"

definition createRow :: "Constraint \<Rightarrow> Solver \<Rightarrow> Row \<times> ITag \<times> Solver" where
  "createRow cn s =
     (case createRow_terms (expr_terms (expression cn))
             (Row_new (expr_constant (expression cn))) s of
        (row, s1) \<Rightarrow>
          (case createRow_symbols cn row s1 of
             (row2, tag', s2) \<Rightarrow>
               (if row_constant row2 < 0 then reverseSign row2 else row2, tag', s2)))"

definition chooseSubject :: "Row \<Rightarrow> ITag \<Rightarrow> ISymbol" where
  "chooseSubject row tag' =
     (case find (\<lambda>pair. sym_type (fst pair) = External) (cells row) of
        Some pair \<Rightarrow> fst pair
      | None \<Rightarrow>
          if (sym_type (marker tag') = Slack \<or> sym_type (marker tag') = Error)
             \<and> coefficientFor (marker tag') row < 0 then marker tag'
          else if (sym_type (other tag') = Slack \<or> sym_type (other tag') = Error)
             \<and> coefficientFor (other tag') row < 0 then other tag'
          else INVALID_SYMBOL)"

text \<open>
  \<open>_substitute\<close>: every row of the tableau in the order of the map, then the
  objective, then the artificial row when there is one.
\<close>

definition solver_substitute :: "ISymbol \<Rightarrow> Row \<Rightarrow> Solver \<Rightarrow> Solver" where
  "solver_substitute symbol row s =
     (let rows' = map (\<lambda>pair. (fst pair, substitute symbol row (snd pair))) (rows s) in
      s\<lparr>rows := rows',
        infeasibleRows := infeasibleRows s @
          map fst (filter (\<lambda>pair. row_constant (snd pair) < 0 \<and> sym_type (fst pair) \<noteq> External) rows'),
        objective := substitute symbol row (objective s),
        artificial := map_option (substitute symbol row) (artificial s)\<rparr>)"

definition getEnteringISymbol :: "Row \<Rightarrow> ISymbol" where
  "getEnteringISymbol obj =
     (case find (\<lambda>pair. snd pair < 0 \<and> sym_type (fst pair) \<noteq> Dummy) (cells obj) of
        Some pair \<Rightarrow> fst pair
      | None \<Rightarrow> INVALID_SYMBOL)"

definition getDualEnteringISymbol :: "Row \<Rightarrow> Solver \<Rightarrow> ISymbol" where
  "getDualEnteringISymbol row s =
     snd (fold (\<lambda>pair (ratio, entering).
            if snd pair > 0 \<and> sym_type (fst pair) \<noteq> Dummy then
              (let r = coefficientFor (fst pair) (objective s) / snd pair in
               if r < ratio then (r, fst pair) else (ratio, entering))
            else (ratio, entering))
          (cells row) (MAX_VALUE, INVALID_SYMBOL))"

definition getLeavingISymbol :: "ISymbol \<Rightarrow> Solver \<Rightarrow> ISymbol" where
  "getLeavingISymbol entering s =
     snd (fold (\<lambda>pair (ratio, found).
            if sym_type (fst pair) \<noteq> External then
              (let temp = coefficientFor entering (snd pair) in
               if temp < 0 then
                 (let tempRatio = - row_constant (snd pair) / temp in
                  if tempRatio < ratio then (tempRatio, fst pair) else (ratio, found))
               else (ratio, found))
            else (ratio, found))
          (rows s) (MAX_VALUE, INVALID_SYMBOL))"

text \<open>
  \<open>_getMarkerLeavingISymbol\<close> of the first copy of solver.ts (lines 619-643): one
  ratio \<open>Math.abs(row.constant) / c\<close> serves both tiers, and the candidates start as
  \<open>null\<close>.
\<close>

definition markerLeaving_step ::
  "ISymbol \<Rightarrow> ISymbol \<times> Row \<Rightarrow>
   real \<times> real \<times> ISymbol option \<times> ISymbol option \<times> ISymbol option \<Rightarrow>
   real \<times> real \<times> ISymbol option \<times> ISymbol option \<times> ISymbol option" where
  "markerLeaving_step mk pair acc =
     (case acc of (r1, r2, first, second, third) \<Rightarrow>
        (let c = coefficientFor mk (snd pair) in
         if c = 0 then acc
         else
           (let r = \<bar>row_constant (snd pair)\<bar> / c in
            if sym_type (fst pair) = External then (r1, r2, first, second, Some (fst pair))
            else
              (case (if c < 0 \<and> r < r1 then (r, Some (fst pair)) else (r1, first)) of
                 (r1', first') \<Rightarrow>
                   (case (if c > 0 \<and> r < r2 then (r, Some (fst pair)) else (r2, second)) of
                      (r2', second') \<Rightarrow> (r1', r2', first', second', third))))))"

definition getMarkerLeavingISymbol :: "ISymbol \<Rightarrow> Solver \<Rightarrow> ISymbol" where
  "getMarkerLeavingISymbol mk s =
     (case fold (markerLeaving_step mk) (rows s) (MAX_VALUE, MAX_VALUE, None, None, None) of
        (r1, r2, first, second, third) \<Rightarrow>
          (case first of
             Some found \<Rightarrow> found
           | None \<Rightarrow>
               (case second of
                  Some found \<Rightarrow> found
                | None \<Rightarrow> (case third of Some found \<Rightarrow> found | None \<Rightarrow> INVALID_SYMBOL))))"

text \<open>
  \<open>_getMarkerLeavingISymbol\<close> of the second copy of solver.ts (lines 1360-1400): the
  first tier divides \<open>-row.constant\<close>, the second \<open>row.constant\<close>, and the candidates
  start as the invalid symbol.
\<close>

definition markerLeaving_step_copy2 ::
  "ISymbol \<Rightarrow> ISymbol \<times> Row \<Rightarrow>
   real \<times> real \<times> ISymbol \<times> ISymbol \<times> ISymbol \<Rightarrow>
   real \<times> real \<times> ISymbol \<times> ISymbol \<times> ISymbol" where
  "markerLeaving_step_copy2 mk pair acc =
     (case acc of (r1, r2, first, second, third) \<Rightarrow>
        (let c = coefficientFor mk (snd pair) in
         if c = 0 then acc
         else if sym_type (fst pair) = External then (r1, r2, first, second, fst pair)
         else if c < 0 then
           (let r = - row_constant (snd pair) / c in
            if r < r1 then (r, r2, fst pair, second, third) else acc)
         else
           (let r = row_constant (snd pair) / c in
            if r < r2 then (r1, r, first, fst pair, third) else acc)))"

definition getMarkerLeavingISymbol_copy2 :: "ISymbol \<Rightarrow> Solver \<Rightarrow> ISymbol" where
  "getMarkerLeavingISymbol_copy2 mk s =
     (case fold (markerLeaving_step_copy2 mk) (rows s)
             (MAX_VALUE, MAX_VALUE, INVALID_SYMBOL, INVALID_SYMBOL, INVALID_SYMBOL) of
        (r1, r2, first, second, third) \<Rightarrow>
          if first \<noteq> INVALID_SYMBOL then first
          else if second \<noteq> INVALID_SYMBOL then second
          else third)"

definition removeMarkerEffects :: "ISymbol \<Rightarrow> real \<Rightarrow> Solver \<Rightarrow> Solver" where
  "removeMarkerEffects mk str s =
     (case imap_find sym_id mk (rows s) of
        Some pair \<Rightarrow> s\<lparr>objective := insertRow (snd pair) (- str) (objective s)\<rparr>
      | None \<Rightarrow> s\<lparr>objective := insertISymbol mk (- str) (objective s)\<rparr>)"

definition removeConstraintEffects :: "Constraint \<Rightarrow> ITag \<Rightarrow> Solver \<Rightarrow> Solver" where
  "removeConstraintEffects cn tag' s =
     (let s1 = (if sym_type (marker tag') = Error
                then removeMarkerEffects (marker tag') (strength cn) s else s) in
      if sym_type (other tag') = Error
      then removeMarkerEffects (other tag') (strength cn) s1 else s1)"

definition anyPivotableISymbol :: "Row \<Rightarrow> ISymbol" where
  "anyPivotableISymbol row =
     (case find (\<lambda>pair. sym_type (fst pair) = Slack \<or> sym_type (fst pair) = Error) (cells row) of
        Some pair \<Rightarrow> fst pair
      | None \<Rightarrow> INVALID_SYMBOL)"

text \<open>
  \<open>_optimize\<close> receives \<open>this.objective\<close> or \<open>this._artificial\<close> and reads that row
  again in every round, after \<open>_substitute\<close> has updated it in place: the argument
  names which of the two rows it is. The loop has no bound in the source, so the model
  is a partial function, and \<open>None\<close> stands for a run that never returns.
\<close>

datatype target = ObjectiveRow | ArtificialRow

definition target_row :: "target \<Rightarrow> Solver \<Rightarrow> Row option" where
  "target_row t s = (case t of ObjectiveRow \<Rightarrow> Some (objective s) | ArtificialRow \<Rightarrow> artificial s)"

definition pivot :: "ISymbol \<Rightarrow> Row \<Rightarrow> Solver \<Rightarrow> Solver" where
  "pivot entering row s =
     (let s1 = solver_substitute entering row s in
      s1\<lparr>rows := imap_insert sym_id entering row (rows s1)\<rparr>)"

partial_function (option) optimize :: "target \<Rightarrow> Solver \<Rightarrow> (unit outcome) option" where
  "optimize t s =
     (case target_row t s of
        None \<Rightarrow> Some (Inl TypeError, s)
      | Some obj \<Rightarrow>
          if sym_type (getEnteringISymbol obj) = Invalid then Some (Inr (), s)
          else if sym_type (getLeavingISymbol (getEnteringISymbol obj) s) = Invalid
          then Some (Inl UnboundedObjective, s)
          else
            (case imap_find sym_id (getLeavingISymbol (getEnteringISymbol obj) s) (rows s) of
               None \<Rightarrow> Some (Inl TypeError, s)
             | Some pair \<Rightarrow>
                 (case solveForEx (getLeavingISymbol (getEnteringISymbol obj) s)
                         (getEnteringISymbol obj) (snd pair) of
                    Inl err \<Rightarrow>
                      Some (Inl err, s\<lparr>rows := imap_erase sym_id (fst pair) (rows s)\<rparr>)
                  | Inr row \<Rightarrow>
                      optimize t
                        (pivot (getEnteringISymbol obj) row
                           (s\<lparr>rows := imap_erase sym_id (fst pair) (rows s)\<rparr>)))))"

partial_function (option) dualOptimize :: "Solver \<Rightarrow> (unit outcome) option" where
  "dualOptimize s =
     (if infeasibleRows s = [] then Some (Inr (), s)
      else
        (case imap_find sym_id (last (infeasibleRows s)) (rows s) of
           None \<Rightarrow> dualOptimize (s\<lparr>infeasibleRows := butlast (infeasibleRows s)\<rparr>)
         | Some pair \<Rightarrow>
             if row_constant (snd pair) < 0 then
               (if sym_type (getDualEnteringISymbol (snd pair) s) = Invalid
                then Some (Inl DualOptimizeFailed, s\<lparr>infeasibleRows := butlast (infeasibleRows s)\<rparr>)
                else
                  (case solveForEx (last (infeasibleRows s))
                          (getDualEnteringISymbol (snd pair) s) (snd pair) of
                     Inl err \<Rightarrow>
                       Some (Inl err,
                             s\<lparr>infeasibleRows := butlast (infeasibleRows s),
                               rows := imap_erase sym_id (last (infeasibleRows s)) (rows s)\<rparr>)
                   | Inr row \<Rightarrow>
                       dualOptimize
                         (pivot (getDualEnteringISymbol (snd pair) s) row
                            (s\<lparr>infeasibleRows := butlast (infeasibleRows s),
                              rows := imap_erase sym_id (last (infeasibleRows s)) (rows s)\<rparr>))))
             else dualOptimize (s\<lparr>infeasibleRows := butlast (infeasibleRows s)\<rparr>)))"

definition removeArtificial :: "ISymbol \<Rightarrow> Solver \<Rightarrow> Solver" where
  "removeArtificial art s =
     s\<lparr>rows := map (\<lambda>pair. (fst pair, removeISymbol art (snd pair))) (rows s),
       objective := removeISymbol art (objective s)\<rparr>"

definition addWithArtificialVariable :: "Row \<Rightarrow> Solver \<Rightarrow> (bool outcome) option" where
  "addWithArtificialVariable row s =
     (case makeISymbol Slack s of
        (art, s1) \<Rightarrow>
          (case optimize ArtificialRow
                  (s1\<lparr>rows := imap_insert sym_id art (copy row) (rows s1),
                      artificial := Some (copy row)\<rparr>) of
             None \<Rightarrow> None
           | Some (Inl err, s2) \<Rightarrow> Some (Inl err, s2)
           | Some (Inr u, s2) \<Rightarrow>
               (case artificial s2 of
                  None \<Rightarrow> Some (Inl TypeError, s2)
                | Some a \<Rightarrow>
                    (let success = nearZero (row_constant a);
                         s3 = s2\<lparr>artificial := None\<rparr>
                     in case imap_find sym_id art (rows s3) of
                          None \<Rightarrow> Some (Inr success, removeArtificial art s3)
                        | Some pair \<Rightarrow>
                            (let basicRow = snd pair;
                                 s4 = s3\<lparr>rows := imap_erase sym_id art (rows s3)\<rparr>
                             in if isConstant basicRow then Some (Inr success, s4)
                                else if sym_type (anyPivotableISymbol basicRow) = Invalid
                                then Some (Inr False, s4)
                                else
                                  (case solveForEx art (anyPivotableISymbol basicRow) basicRow of
                                     Inl err \<Rightarrow> Some (Inl err, s4)
                                   | Inr basicRow' \<Rightarrow>
                                       Some (Inr success,
                                             removeArtificial art
                                               (pivot (anyPivotableISymbol basicRow) basicRow' s4))))))))"

text \<open>
  \<open>addConstraint\<close>, in two parts: the choice of the subject, with the test of a row of
  dummies (lines 59-73), and the admission of the row (lines 78-93).
\<close>

definition subjectFor :: "Row \<Rightarrow> ITag \<Rightarrow> error + ISymbol" where
  "subjectFor row tag' =
     (let subject = chooseSubject row tag' in
      if sym_type subject = Invalid then
        (case allDummies row of
           Inl err \<Rightarrow> Inl err
         | Inr dummies \<Rightarrow>
             if dummies then
               (if \<not> nearZero (row_constant row) then Inl UnsatisfiableConstraint
                else Inr (marker tag'))
             else Inr subject)
      else Inr subject)"

definition addConstraint :: "Constraint \<Rightarrow> Solver \<Rightarrow> (unit outcome) option" where
  "addConstraint cn s =
     (if imap_find cn_id cn (constraints s) \<noteq> None then Some (Inl DuplicateConstraint, s)
      else
        (case createRow cn s of
           (row, tag', s1) \<Rightarrow>
             (case subjectFor row tag' of
                Inl err \<Rightarrow> Some (Inl err, s1)
              | Inr subject \<Rightarrow>
                  if sym_type subject = Invalid then
                    (case addWithArtificialVariable row s1 of
                       None \<Rightarrow> None
                     | Some (Inl err, s2) \<Rightarrow> Some (Inl err, s2)
                     | Some (Inr admitted, s2) \<Rightarrow>
                         if \<not> admitted then Some (Inl UnsatisfiableConstraint, s2)
                         else optimize ObjectiveRow
                                (s2\<lparr>constraints := imap_insert cn_id cn tag' (constraints s2)\<rparr>))
                  else
                    (case solveFor subject row of
                       Inl err \<Rightarrow> Some (Inl err, s1)
                     | Inr row' \<Rightarrow>
                         optimize ObjectiveRow
                           ((pivot subject row' s1)
                              \<lparr>constraints := imap_insert cn_id cn tag' (constraints s1)\<rparr>)))))"

definition removeConstraint :: "Constraint \<Rightarrow> Solver \<Rightarrow> (unit outcome) option" where
  "removeConstraint cn s =
     (case imap_find cn_id cn (constraints s) of
        None \<Rightarrow> Some (Inl UnknownConstraint, s)
      | Some cnPair \<Rightarrow>
          (let s1 = removeConstraintEffects cn (snd cnPair)
                      (s\<lparr>constraints := imap_erase cn_id cn (constraints s)\<rparr>);
               mk = marker (snd cnPair)
           in case imap_find sym_id mk (rows s1) of
                Some rowPair \<Rightarrow>
                  optimize ObjectiveRow (s1\<lparr>rows := imap_erase sym_id mk (rows s1)\<rparr>)
              | None \<Rightarrow>
                  (let leaving = getMarkerLeavingISymbol mk s1 in
                   if sym_type leaving = Invalid then Some (Inl FailedToFindLeavingRow, s1)
                   else
                     (case imap_find sym_id leaving (rows s1) of
                        None \<Rightarrow> Some (Inl TypeError, s1)
                      | Some rowPair \<Rightarrow>
                          (case solveForEx leaving mk (snd rowPair) of
                             Inl err \<Rightarrow>
                               Some (Inl err, s1\<lparr>rows := imap_erase sym_id leaving (rows s1)\<rparr>)
                           | Inr row \<Rightarrow>
                               optimize ObjectiveRow
                                 (solver_substitute mk row
                                    (s1\<lparr>rows := imap_erase sym_id leaving (rows s1)\<rparr>)))))))"

definition hasConstraint :: "Constraint \<Rightarrow> Solver \<Rightarrow> bool" where
  "hasConstraint cn s = imap_contains cn_id cn (constraints s)"

text \<open>
  \<open>createConstraint\<close> and \<open>addEditVariable\<close> construct a \<open>Constraint\<close>; the id that
  the counter \<open>CnId\<close> would give it is the first argument. \<open>createConstraint\<close> hands
  its \<open>rhs\<close> to the constructor as it is, so an \<open>undefined\<close> one is \<open>None\<close> here too.
\<close>

definition createConstraint ::
  "int \<Rightarrow> Arg \<Rightarrow> Operator \<Rightarrow> Arg option \<Rightarrow> real \<Rightarrow> Solver \<Rightarrow>
   (Constraint outcome) option" where
  "createConstraint cid lhs op rhs str s =
     (case Constraint_new cid lhs op rhs str of
        Inl err \<Rightarrow> Some (Inl err, s)
      | Inr cn \<Rightarrow>
          (case addConstraint cn s of
             None \<Rightarrow> None
           | Some (Inl err, s1) \<Rightarrow> Some (Inl err, s1)
           | Some (Inr u, s1) \<Rightarrow> Some (Inr cn, s1)))"

definition addEditVariable ::
  "int \<Rightarrow> Variable \<Rightarrow> real \<Rightarrow> Solver \<Rightarrow> (unit outcome) option" where
  "addEditVariable cid variable str s =
     (if imap_find var_id variable (edits s) \<noteq> None then Some (Inl DuplicateEditVariable, s)
      else if clip str = required then Some (Inl BadRequiredStrength, s)
      else
        (case Expression_new [Var variable] of
           Inl err \<Rightarrow> Some (Inl err, s)
         | Inr expr \<Rightarrow>
             (case Constraint_new cid (Expr expr) Eq None (clip str) of
                Inl err \<Rightarrow> Some (Inl err, s)
              | Inr cn \<Rightarrow>
                  (case addConstraint cn s of
                     None \<Rightarrow> None
                   | Some (Inl err, s1) \<Rightarrow> Some (Inl err, s1)
                   | Some (Inr u, s1) \<Rightarrow>
                       (case imap_find cn_id cn (constraints s1) of
                          None \<Rightarrow> Some (Inl TypeError, s1)
                        | Some cnPair \<Rightarrow>
                            Some (Inr (),
                                  s1\<lparr>edits :=
                                       imap_insert var_id variable
                                         \<lparr>tag = snd cnPair, constraint = cn, edit_constant = 0\<rparr>
                                         (edits s1)\<rparr>))))))"

definition removeEditVariable :: "Variable \<Rightarrow> Solver \<Rightarrow> (unit outcome) option" where
  "removeEditVariable variable s =
     (case imap_find var_id variable (edits s) of
        None \<Rightarrow> Some (Inl UnknownEditVariable, s)
      | Some editPair \<Rightarrow>
          removeConstraint (constraint (snd editPair))
            (s\<lparr>edits := imap_erase var_id variable (edits s)\<rparr>))"

definition hasEditVariable :: "Variable \<Rightarrow> Solver \<Rightarrow> bool" where
  "hasEditVariable variable s = imap_contains var_id variable (edits s)"

text \<open>
  \<open>suggestValue\<close>: \<open>addToRow\<close> is \<open>rowPair.second.add(v) < 0.0\<close> on the row that is
  basic for a symbol, followed by the \<open>push\<close>; \<open>suggest_step\<close> is one round of the loop
  over all rows (lines 230-238).
\<close>

definition addToRow :: "ISymbol \<Rightarrow> Row \<Rightarrow> real \<Rightarrow> Solver \<Rightarrow> Solver" where
  "addToRow symbol row v s =
     (case add v row of
        (c, row') \<Rightarrow>
          s\<lparr>rows := imap_insert sym_id symbol row' (rows s),
            infeasibleRows := (if c < 0 then infeasibleRows s @ [symbol] else infeasibleRows s)\<rparr>)"

definition suggest_step ::
  "ISymbol \<Rightarrow> real \<Rightarrow> ISymbol \<times> Row \<Rightarrow> (ISymbol, Row) IMap \<times> ISymbol list \<Rightarrow>
   (ISymbol, Row) IMap \<times> ISymbol list" where
  "suggest_step mk delta rowPair acc =
     (case acc of (updated, infeasible) \<Rightarrow>
        (let coeff = coefficientFor mk (snd rowPair) in
         if coeff \<noteq> 0 then
           (case add (delta * coeff) (snd rowPair) of
              (c, row') \<Rightarrow>
                (updated @ [(fst rowPair, row')],
                 if c < 0 \<and> sym_type (fst rowPair) \<noteq> External
                 then infeasible @ [fst rowPair] else infeasible))
         else (updated @ [rowPair], infeasible)))"

definition suggestValue :: "Variable \<Rightarrow> real \<Rightarrow> Solver \<Rightarrow> (unit outcome) option" where
  "suggestValue variable v s =
     (case imap_find var_id variable (edits s) of
        None \<Rightarrow> Some (Inl UnknownEditVariable, s)
      | Some editPair \<Rightarrow>
          (let info = snd editPair;
               delta = v - edit_constant info;
               s1 = s\<lparr>edits := imap_insert var_id variable (info\<lparr>edit_constant := v\<rparr>) (edits s)\<rparr>
           in case imap_find sym_id (marker (tag info)) (rows s1) of
                Some rowPair \<Rightarrow>
                  dualOptimize (addToRow (marker (tag info)) (snd rowPair) (- delta) s1)
              | None \<Rightarrow>
                  (case imap_find sym_id (other (tag info)) (rows s1) of
                     Some rowPair \<Rightarrow>
                       dualOptimize (addToRow (other (tag info)) (snd rowPair) delta s1)
                   | None \<Rightarrow>
                       (case fold (suggest_step (marker (tag info)) delta) (rows s1)
                               ([], infeasibleRows s1) of
                          (rows', infeasible') \<Rightarrow>
                            dualOptimize (s1\<lparr>rows := rows', infeasibleRows := infeasible'\<rparr>)))))"

definition updateVariables :: "Solver \<Rightarrow> valuation \<Rightarrow> valuation" where
  "updateVariables s vals =
     fold (\<lambda>pair acc.
             acc(var_id (fst pair) :=
                   (case imap_find sym_id (snd pair) (rows s) of
                      Some rowPair \<Rightarrow> row_constant (snd rowPair)
                    | None \<Rightarrow> 0)))
       (vars s) vals"

section \<open>Example inputs\<close>

text \<open>
  One variable \<open>x\<close>, and the constraint \<open>x op k\<close> with a strength and an id, as the
  constructor of \<open>Constraint\<close> builds it from \<open>x\<close>, the operator and the number \<open>k\<close>
  (lemma \<open>bound_constructed\<close>). \<open>run\<close> applies a list of solver calls in order and
  stops at the first one that does not return normally.
\<close>

definition var_x :: Variable where
  "var_x = \<lparr>var_id = 0, var_name = ''x''\<rparr>"

definition bound :: "int \<Rightarrow> Operator \<Rightarrow> real \<Rightarrow> real \<Rightarrow> Constraint" where
  "bound i op k str =
     \<lparr>expression = \<lparr>expr_terms = [(var_x, 1)], expr_constant = - k\<rparr>,
      operator = op, strength = str, cn_id = i\<rparr>"

definition sy :: "ISymbolType \<Rightarrow> int \<Rightarrow> ISymbol" where
  "sy t i = \<lparr>sym_type = t, sym_id = i\<rparr>"

definition run :: "(Solver \<Rightarrow> (unit outcome) option) list \<Rightarrow> Solver \<Rightarrow> (unit outcome) option" where
  "run ops s =
     fold (\<lambda>f acc. case acc of Some (Inr u, s') \<Rightarrow> f s' | _ \<Rightarrow> acc) ops (Some (Inr (), s))"

text \<open>The solver after \<open>x \<le> 10\<close>, \<open>x \<ge> 5\<close> and \<open>x \<ge> 7\<close>, all required, were added.\<close>

definition three_bounds :: Solver where
  "three_bounds =
     \<lparr>constraints =
        [(bound 0 Le 10 required, \<lparr>marker = sy Slack 1, other = INVALID_SYMBOL\<rparr>),
         (bound 1 Ge 5 required, \<lparr>marker = sy Slack 3, other = INVALID_SYMBOL\<rparr>),
         (bound 2 Ge 7 required, \<lparr>marker = sy Slack 5, other = INVALID_SYMBOL\<rparr>)],
      rows =
        [(sy External 0, \<lparr>row_constant = 10, cells = [(sy Slack 1, - 1)]\<rparr>),
         (sy Slack 3, \<lparr>row_constant = 5, cells = [(sy Slack 1, - 1)]\<rparr>),
         (sy Slack 5, \<lparr>row_constant = 3, cells = [(sy Slack 1, - 1)]\<rparr>)],
      vars = [(var_x, sy External 0)], edits = [], infeasibleRows = [],
      objective = Row_new 0, artificial = None, idTick = 6\<rparr>"

text \<open>The solver after \<open>x \<le> 10\<close> was then removed.\<close>

definition after_removal :: Solver where
  "after_removal =
     \<lparr>constraints =
        [(bound 1 Ge 5 required, \<lparr>marker = sy Slack 3, other = INVALID_SYMBOL\<rparr>),
         (bound 2 Ge 7 required, \<lparr>marker = sy Slack 5, other = INVALID_SYMBOL\<rparr>)],
      rows =
        [(sy External 0, \<lparr>row_constant = 5, cells = [(sy Slack 3, 1)]\<rparr>),
         (sy Slack 5, \<lparr>row_constant = - 2, cells = [(sy Slack 3, 1)]\<rparr>)],
      vars = [(var_x, sy External 0)], edits = [], infeasibleRows = [sy Slack 5],
      objective = Row_new 0, artificial = None, idTick = 6\<rparr>"

text \<open>
  The solver after the required \<open>x \<ge> 10\<close> was added, and after the required \<open>x \<le> 5\<close>
  was then refused.
\<close>

definition lower_bound :: Solver where
  "lower_bound =
     \<lparr>constraints = [(bound 0 Ge 10 required, \<lparr>marker = sy Slack 1, other = INVALID_SYMBOL\<rparr>)],
      rows = [(sy External 0, \<lparr>row_constant = 10, cells = [(sy Slack 1, 1)]\<rparr>)],
      vars = [(var_x, sy External 0)], edits = [], infeasibleRows = [],
      objective = Row_new 0, artificial = None, idTick = 2\<rparr>"

definition after_failure :: Solver where
  "after_failure =
     \<lparr>constraints = [(bound 0 Ge 10 required, \<lparr>marker = sy Slack 1, other = INVALID_SYMBOL\<rparr>)],
      rows =
        [(sy External 0, \<lparr>row_constant = 5, cells = [(sy Slack 3, - 1)]\<rparr>),
         (sy Slack 1, \<lparr>row_constant = - 5, cells = [(sy Slack 3, - 1)]\<rparr>)],
      vars = [(var_x, sy External 0)], edits = [], infeasibleRows = [],
      objective = Row_new 0, artificial = None, idTick = 5\<rparr>"

text \<open>
  The solver after the required \<open>x = 10\<close> was added, and after the required \<open>x = 20\<close>
  was then refused.
\<close>

definition one_equality :: Solver where
  "one_equality =
     \<lparr>constraints = [(bound 0 Eq 10 required, \<lparr>marker = sy Dummy 1, other = INVALID_SYMBOL\<rparr>)],
      rows = [(sy External 0, \<lparr>row_constant = 10, cells = [(sy Dummy 1, - 1)]\<rparr>)],
      vars = [(var_x, sy External 0)], edits = [], infeasibleRows = [],
      objective = Row_new 0, artificial = None, idTick = 2\<rparr>"

definition after_conflict :: Solver where
  "after_conflict = one_equality\<lparr>idTick := 4\<rparr>"

text \<open>The solver after the weak \<open>x = 10\<close> was added, and after it was removed again.\<close>

definition weak_equality :: Solver where
  "weak_equality =
     \<lparr>constraints = [(bound 0 Eq 10 weak, \<lparr>marker = sy Error 1, other = sy Error 2\<rparr>)],
      rows =
        [(sy External 0, \<lparr>row_constant = 10, cells = [(sy Error 1, 1), (sy Error 2, - 1)]\<rparr>)],
      vars = [(var_x, sy External 0)], edits = [], infeasibleRows = [],
      objective = \<lparr>row_constant = 0, cells = [(sy Error 1, 1), (sy Error 2, 1)]\<rparr>,
      artificial = None, idTick = 3\<rparr>"

definition after_weak_removal :: Solver where
  "after_weak_removal =
     \<lparr>constraints = [], rows = [],
      vars = [(var_x, sy External 0)], edits = [], infeasibleRows = [],
      objective = \<lparr>row_constant = - 10, cells = [(sy External 0, 1), (sy Error 2, 1)]\<rparr>,
      artificial = None, idTick = 3\<rparr>"

declare optimize.simps [code]
declare dualOptimize.simps [code]

section \<open>Strength arithmetic\<close>

lemma required_value: "required = 1001001000"
  by (simp add: required_def create_def)

lemma create_in_range:
  assumes "0 \<le> a" "a \<le> 1000" "0 \<le> b" "b \<le> 1000" "0 \<le> c" "c \<le> 1000"
  shows "create a b c 1 = a * 1000000 + b * 1000 + c"
  using assms by (simp add: create_def)

lemma decompose_nat:
  fixes i j k :: nat
  assumes "j < 1000" "k < 1000" "n = i * 1000000 + j * 1000 + k"
  shows "i = n div 1000000 \<and> j = n div 1000 mod 1000 \<and> k = n mod 1000"
proof -
  have n1: "n = (i * 1000 + j) * 1000 + k"
    using assms by simp
  have n2: "n = i * 1000000 + (j * 1000 + k)"
    using assms by simp
  have lt: "j * 1000 + k < 1000000"
    using assms by simp
  have "((i * 1000 + j) * 1000 + k) mod 1000 = k"
    using assms(2) by (simp only: mod_mult_self3 mod_less)
  then have m: "n mod 1000 = k"
    by (simp only: n1)
  have "((i * 1000 + j) * 1000 + k) div 1000 = i * 1000 + j"
    using assms(2) by (simp only: div_mult_self3 div_less)
  then have d: "n div 1000 = i * 1000 + j"
    by (simp only: n1)
  have "(i * 1000 + j) mod 1000 = j"
    using assms(1) by (simp only: mod_mult_self3 mod_less)
  then have d2: "n div 1000 mod 1000 = j"
    by (simp only: d)
  have "(i * 1000000 + (j * 1000 + k)) div 1000000 = i"
    using lt by (simp only: div_mult_self3 div_less)
  then have d3: "n div 1000000 = i"
    by (simp only: n2)
  from m d2 d3 show ?thesis by simp
qed

text \<open>
  Claim C8, as stated, fails: with weight 1 and components in \<open>[0, 1000]\<close> the encoding
  is not injective. The components \<open>(0, 1, 0)\<close> and \<open>(0, 0, 1000)\<close> both give 1000.
\<close>

theorem create_collision:
  "create 0 1 0 1 = create 0 0 1000 1 \<and> (0::real, 1::real, 0::real) \<noteq> (0, 0, 1000)"
  by (simp add: create_def)

text \<open>
  Claim C8, amended: for all \<open>a\<close>, \<open>b\<close>, \<open>c\<close> in \<open>[0, 1000]\<close> and weight 1,
  \<open>create(a, b, c)\<close> equals \<open>a\<cdot>10\<^sup>6 + b\<cdot>10\<^sup>3 + c\<close> and \<open>clip\<close> leaves it unchanged; the
  components can be read back from the result when they are whole numbers and the
  medium and weak components are below 1000.
\<close>

theorem create_decomposable:
  "0 \<le> a \<and> a \<le> 1000 \<and> 0 \<le> b \<and> b \<le> 1000 \<and> 0 \<le> c \<and> c \<le> 1000 \<Longrightarrow>
     create a b c 1 = a * 1000000 + b * 1000 + c
     \<and> clip (create a b c 1) = create a b c 1
     \<and> (\<forall>i j k. a = real i \<and> b = real j \<and> c = real k \<and> j < 1000 \<and> k < 1000 \<longrightarrow>
           i = nat \<lfloor>create a b c 1\<rfloor> div 1000000
           \<and> j = nat \<lfloor>create a b c 1\<rfloor> div 1000 mod 1000
           \<and> k = nat \<lfloor>create a b c 1\<rfloor> mod 1000)"
proof -
  assume range: "0 \<le> a \<and> a \<le> 1000 \<and> 0 \<le> b \<and> b \<le> 1000 \<and> 0 \<le> c \<and> c \<le> 1000"
  then have val: "create a b c 1 = a * 1000000 + b * 1000 + c"
    by (simp add: create_in_range)
  from range have "0 \<le> a * 1000000 + b * 1000 + c" "a * 1000000 + b * 1000 + c \<le> 1001001000"
    by auto
  then have cl: "clip (create a b c 1) = create a b c 1"
    by (simp add: clip_def required_value val)
  have dec: "i = nat \<lfloor>create a b c 1\<rfloor> div 1000000
           \<and> j = nat \<lfloor>create a b c 1\<rfloor> div 1000 mod 1000
           \<and> k = nat \<lfloor>create a b c 1\<rfloor> mod 1000"
    if h: "a = real i \<and> b = real j \<and> c = real k \<and> j < 1000 \<and> k < 1000" for i j k
  proof -
    from h val have "create a b c 1 = real (i * 1000000 + j * 1000 + k)"
      by simp
    then have "nat \<lfloor>create a b c 1\<rfloor> = i * 1000000 + j * 1000 + k"
      by (simp only: floor_of_nat nat_int)
    with h show ?thesis
      using decompose_nat [of j k "nat \<lfloor>create a b c 1\<rfloor>" i] by simp
  qed
  from val cl dec show ?thesis by blast
qed

theorem create_decomposable_witness:
  "create 1 2 3 1 = 1002003 \<and> clip (create 1 2 3 1) = create 1 2 3 1
   \<and> (1::nat) = nat \<lfloor>create 1 2 3 1\<rfloor> div 1000000
   \<and> (2::nat) = nat \<lfloor>create 1 2 3 1\<rfloor> div 1000 mod 1000
   \<and> (3::nat) = nat \<lfloor>create 1 2 3 1\<rfloor> mod 1000"
  using create_decomposable [of 1 2 3] by (simp add: create_def)

section \<open>Rows\<close>

lemma foldl_conj: "foldl (\<lambda>a b. a \<and> b) x bs = (x \<and> (\<forall>b\<in>set bs. b))"
  by (induction bs arbitrary: x) auto

lemma allDummies_nonempty:
  "cells r \<noteq> [] \<Longrightarrow> allDummies r = Inr (\<forall>pair\<in>set (cells r). sym_type (fst pair) = Dummy)"
  by (cases "cells r") (auto simp: allDummies_def reduce_def foldl_conj)

lemma allDummies_loop_iff: "allDummies_loop cs = (\<forall>pair\<in>set cs. sym_type (fst pair) = Dummy)"
  by (induction cs) auto

lemma allDummies_copy2_iff:
  "allDummies_copy2 r = (\<forall>pair\<in>set (cells r). sym_type (fst pair) = Dummy)"
  by (simp add: allDummies_copy2_def allDummies_loop_iff)

text \<open>
  Claim C9 says that \<open>allDummies()\<close> is total and returns true for a row with no
  cells. \<open>Row.allDummies\<close> of row.ts reduces the mapped cells without an initial
  value, so on the row \<open>new Row()\<close> it raises a \<open>TypeError\<close>. On a row with cells it
  returns what the claim says (\<open>allDummies_nonempty\<close>), and the loop of the second
  copy returns true on the empty row (\<open>allDummies_copy2_iff\<close>).
\<close>

theorem allDummies_empty_row: "allDummies (Row_new 0) = Inl TypeError"
  by (simp add: allDummies_def reduce_def Row_new_def)

lemma insertISymbol_copy2_adds:
  "insertISymbol_copy2 \<lparr>sym_type = External, sym_id = 0\<rparr> 2
     \<lparr>row_constant = 0, cells = [(\<lparr>sym_type = External, sym_id = 0\<rparr>, 3)]\<rparr>
   = \<lparr>row_constant = 0, cells = [(\<lparr>sym_type = External, sym_id = 0\<rparr>, 5)]\<rparr>"
  by (simp add: insertISymbol_copy2_def imap_setDefault_def nearZero_def eps_def)

text \<open>
  Claim C5 says that \<open>insertSymbol(s, c)\<close> adds \<open>c\<close> to the coefficient that \<open>s\<close>
  has. \<open>Row.insertISymbol\<close> of row.ts hands \<open>c\<close> to \<open>setDefault\<close> as the default, which
  is stored only when \<open>s\<close> is absent: in the row \<open>3\<cdot>s\<close>, inserting \<open>s\<close> with
  coefficient 2 leaves \<open>3\<cdot>s\<close>, where the claim gives \<open>5\<cdot>s\<close>. The second copy adds
  (\<open>insertISymbol_copy2_adds\<close>).
\<close>

theorem insertISymbol_keeps_old_coefficient:
  "insertISymbol \<lparr>sym_type = External, sym_id = 0\<rparr> 2
     \<lparr>row_constant = 0, cells = [(\<lparr>sym_type = External, sym_id = 0\<rparr>, 3)]\<rparr>
   = \<lparr>row_constant = 0, cells = [(\<lparr>sym_type = External, sym_id = 0\<rparr>, 3)]\<rparr>"
  by (simp add: insertISymbol_def imap_setDefault_def nearZero_def eps_def)

section \<open>Expressions\<close>

lemma foldl_plus: "foldl (\<lambda>a b. a + b) (x::real) xs = x + sum_list xs"
  by (induction xs arbitrary: x) auto

text \<open>
  Claim C10: the getter \<open>value\<close> of an expression with no terms (\<open>isConstant()\<close> true)
  fails, and of an expression with terms it returns the constant plus the sum over the
  terms of the coefficient times the current value of the variable.
\<close>

theorem Expression_value_getter:
  "Expression_value vals e =
     (if Expression_isConstant e then Inl TypeError
      else Inr (expr_constant e + (\<Sum>p\<leftarrow>expr_terms e. vals (var_id (fst p)) * snd p)))"
  by (cases "expr_terms e")
     (simp_all add: Expression_value_def Expression_isConstant_def reduce_def foldl_plus)

lemma bound_constructed:
  "Constraint_new i (Var var_x) op (Some (Num k)) str = Inr (bound i op k (clip str))"
  by (simp add: Constraint_new_def Expression_minus_def Expression_new_def parseArgs_def
      imap_setDefault_def bound_def)

lemma clip_named_strengths: "clip required = required" "clip weak = weak"
  by (simp_all add: clip_def required_def weak_def create_def)

text \<open>
  Claim C4 says that the \<open>Expression\<close> constructor sums the coefficients of a variable
  that occurs more than once, so that the result depends only on the bag of terms.
  \<open>parseArgs\<close> hands each coefficient to \<open>setDefault\<close> as a default and adds nothing: the
  first coefficient of a variable stays. \<open>new Expression(x, x)\<close> is \<open>1\<cdot>x\<close>, not \<open>2\<cdot>x\<close>,
  and the arguments \<open>x, [2, x]\<close> and \<open>[2, x], x\<close>, the same bag in two orders, give
  \<open>1\<cdot>x\<close> and \<open>2\<cdot>x\<close>.
\<close>

theorem parseArgs_first_coefficient_stays:
  "Expression_new [Var var_x, Var var_x]
     = Inr \<lparr>expr_terms = [(var_x, 1)], expr_constant = 0\<rparr>
   \<and> Expression_new [Var var_x, Arr [Num 2, Var var_x]]
     = Inr \<lparr>expr_terms = [(var_x, 1)], expr_constant = 0\<rparr>
   \<and> Expression_new [Arr [Num 2, Var var_x], Var var_x]
     = Inr \<lparr>expr_terms = [(var_x, 2)], expr_constant = 0\<rparr>"
  by code_simp

section \<open>Removing a constraint\<close>

lemma three_bounds_run:
  "run [addConstraint (bound 0 Le 10 required), addConstraint (bound 1 Ge 5 required),
        addConstraint (bound 2 Ge 7 required)] Solver_new = Some (Inr (), three_bounds)"
  by code_simp

text \<open>
  Claim C6 says that, among the restricted rows in which the marker has a negative
  coefficient, the leaving row is the one with the smallest ratio
  \<open>-constant / coefficient\<close>. In \<open>three_bounds\<close> the marker of \<open>x \<le> 10\<close> has
  coefficient \<open>-1\<close> in the rows of both slack symbols, with ratios 5 and 3.
  \<open>_getMarkerLeavingISymbol\<close> of the first copy of solver.ts divides
  \<open>Math.abs(row.constant)\<close> by the negative coefficient and keeps the smallest
  quotient, which is the largest ratio: it returns the row with ratio 5. The second
  copy divides \<open>-row.constant\<close> and returns the row with ratio 3.
\<close>

theorem marker_leaving_largest_ratio:
  "getMarkerLeavingISymbol (sy Slack 1) three_bounds = sy Slack 3
   \<and> map (\<lambda>pair. (fst pair, coefficientFor (sy Slack 1) (snd pair),
                    - row_constant (snd pair) / coefficientFor (sy Slack 1) (snd pair)))
        (rows three_bounds)
     = [(sy External 0, - 1, 10), (sy Slack 3, - 1, 5), (sy Slack 5, - 1, 3)]
   \<and> getMarkerLeavingISymbol_copy2 (sy Slack 1) three_bounds = sy Slack 5"
  by code_simp

text \<open>
  Claim C2 says that after every mutation that returns normally every basic row of a
  symbol that is not external has a constant of at least \<open>-\<epsilon>\<close>. Adding \<open>x \<le> 10\<close>,
  \<open>x \<ge> 5\<close> and \<open>x \<ge> 7\<close> and removing \<open>x \<le> 10\<close> all return normally, and the row of
  the slack symbol of \<open>x \<ge> 7\<close> then has the constant \<open>-2\<close>: \<open>removeConstraint\<close>
  pivots on the row that \<open>_getMarkerLeavingISymbol\<close> chose, the one with the largest
  ratio, and never runs \<open>_dualOptimize\<close>.
\<close>

theorem removal_leaves_negative_row:
  "run [addConstraint (bound 0 Le 10 required), addConstraint (bound 1 Ge 5 required),
        addConstraint (bound 2 Ge 7 required), removeConstraint (bound 0 Le 10 required)]
     Solver_new = Some (Inr (), after_removal)
   \<and> imap_find sym_id (sy Slack 5) (rows after_removal)
       = Some (sy Slack 5, \<lparr>row_constant = - 2, cells = [(sy Slack 3, 1)]\<rparr>)
   \<and> (- 2 :: real) < - eps"
  by code_simp

text \<open>
  Claim C1 says that after any sequence of successful mutations \<open>updateVariables\<close>
  publishes values at which the left-hand side of every admitted required constraint
  satisfies its relation within \<open>\<epsilon>\<close>. After the same four calls \<open>x \<ge> 7\<close> is still
  admitted, \<open>updateVariables\<close> publishes \<open>x = 5\<close>, and the left-hand side \<open>x - 7\<close> is
  \<open>-2\<close>.
\<close>

theorem removal_breaks_required_bound:
  "run [addConstraint (bound 0 Le 10 required), addConstraint (bound 1 Ge 5 required),
        addConstraint (bound 2 Ge 7 required), removeConstraint (bound 0 Le 10 required)]
     Solver_new = Some (Inr (), after_removal)
   \<and> hasConstraint (bound 2 Ge 7 required) after_removal
   \<and> updateVariables after_removal (\<lambda>i. 0) (var_id var_x) = 5
   \<and> Expression_value (updateVariables after_removal (\<lambda>i. 0))
        (expression (bound 2 Ge 7 required)) = Inr (- 2)
   \<and> (- 2 :: real) < - eps"
  by code_simp

text \<open>
  Claim C7 says that removing every constraint in reverse order of admission leaves
  the objective with constant zero and no cells. Adding the weak \<open>x = 10\<close> to a new
  solver and removing it leaves the objective \<open>-10 + x + e\<close>: \<open>_removeMarkerEffects\<close>
  inserts each error symbol with the coefficient \<open>-strength\<close>, and \<open>insertISymbol\<close> of
  row.ts leaves the coefficient \<open>strength\<close> that the symbol has. The rows and the
  constraints are empty.
\<close>

theorem weak_equality_leaves_objective:
  "addConstraint (bound 0 Eq 10 weak) Solver_new = Some (Inr (), weak_equality)
   \<and> removeConstraint (bound 0 Eq 10 weak) weak_equality = Some (Inr (), after_weak_removal)
   \<and> objective after_weak_removal
       = \<lparr>row_constant = - 10, cells = [(sy External 0, 1), (sy Error 2, 1)]\<rparr>
   \<and> objective Solver_new = \<lparr>row_constant = 0, cells = []\<rparr>"
  by code_simp

section \<open>Failures\<close>

text \<open>
  Claim C3, as stated for the path of artificial-variable admission, fails at this
  input: the required \<open>x \<le> 5\<close> after the required \<open>x \<ge> 10\<close> has no subject and
  goes through \<open>_addWithArtificialVariable\<close>, which here pivots before it reports
  that the constraint cannot be satisfied; \<open>addConstraint\<close> then fails with
  UnsatisfiableConstraint, and the rows are no longer those from before the call.
\<close>

theorem artificial_failure_changes_rows:
  "addConstraint (bound 0 Ge 10 required) Solver_new = Some (Inr (), lower_bound)
   \<and> addConstraint (bound 1 Le 5 required) lower_bound
       = Some (Inl UnsatisfiableConstraint, after_failure)
   \<and> rows after_failure \<noteq> rows lower_bound"
  by code_simp

text \<open>The errors that each part of the solver can raise, and what it has changed by then.\<close>

lemma solveFor_error: "solveFor symbol r = Inl e \<Longrightarrow> e = TypeError \<or> e = NonFinite"
  by (auto simp: solveFor_def Let_def split: option.splits if_splits)

lemma solveForEx_error: "solveForEx lhs rhs r = Inl e \<Longrightarrow> e = TypeError \<or> e = NonFinite"
  unfolding solveForEx_def by (rule solveFor_error)

lemma optimize_error_all:
  assumes "optimize t s = Some y"
  shows "\<forall>e. fst y = Inl e \<longrightarrow> e \<in> {TypeError, UnboundedObjective, NonFinite}"
  apply (rule optimize.raw_induct [OF _ assms])
  subgoal premises prems for f t s y
    using prems(2)
    by (auto split: option.splits if_splits sum.splits dest: solveForEx_error prems(1))
  done

lemma optimize_error:
  "optimize t s = Some y \<Longrightarrow> fst y = Inl e \<Longrightarrow> e \<in> {TypeError, UnboundedObjective, NonFinite}"
  using optimize_error_all by blast

lemma dualOptimize_error_all:
  assumes "dualOptimize s = Some y"
  shows "\<forall>e. fst y = Inl e \<longrightarrow> e \<in> {TypeError, DualOptimizeFailed, NonFinite}"
  apply (rule dualOptimize.raw_induct [OF _ assms])
  subgoal premises prems for f s y
    using prems(2)
    by (auto split: option.splits if_splits sum.splits dest: solveForEx_error prems(1))
  done

lemma dualOptimize_error:
  "dualOptimize s = Some y \<Longrightarrow> fst y = Inl e \<Longrightarrow> e \<in> {TypeError, DualOptimizeFailed, NonFinite}"
  using dualOptimize_error_all by blast

lemma addWithArtificialVariable_error:
  assumes "addWithArtificialVariable row s = Some (Inl e, s')"
  shows "e \<in> {TypeError, UnboundedObjective, NonFinite}"
  using assms
  by (auto simp: addWithArtificialVariable_def Let_def
      split: prod.splits option.splits sum.splits if_splits
      dest: solveForEx_error optimize_error [where e = e])

lemma getVarISymbol_same:
  "getVarISymbol v s = (symbol, s') \<Longrightarrow>
     rows s' = rows s \<and> constraints s' = constraints s \<and> objective s' = objective s"
  by (auto simp: getVarISymbol_def makeISymbol_def split: prod.splits)

lemma createRow_terms_same:
  "createRow_terms ts row s = (row', s') \<Longrightarrow>
     rows s' = rows s \<and> constraints s' = constraints s \<and> objective s' = objective s"
proof (induction ts arbitrary: row s)
  case Nil
  then show ?case by simp
next
  case (Cons termPair rest)
  show ?case
  proof (cases "nearZero (snd termPair)")
    case True
    with Cons show ?thesis by simp
  next
    case False
    obtain symbol s1 where g: "getVarISymbol (fst termPair) s = (symbol, s1)"
      by (cases "getVarISymbol (fst termPair) s")
    from getVarISymbol_same [OF g] have same1:
      "rows s1 = rows s \<and> constraints s1 = constraints s \<and> objective s1 = objective s" .
    show ?thesis
    proof (cases "imap_find sym_id symbol (rows s1)")
      case None
      with Cons.prems False g
      have "createRow_terms rest (insertISymbol symbol (snd termPair) row) s1 = (row', s')"
        by simp
      from Cons.IH [OF this] same1 show ?thesis by simp
    next
      case (Some basicPair)
      with Cons.prems False g
      have "createRow_terms rest (insertRow (snd basicPair) (snd termPair) row) s1 = (row', s')"
        by simp
      from Cons.IH [OF this] same1 show ?thesis by simp
    qed
  qed
qed

lemma createRow_symbols_same:
  "createRow_symbols cn row s = (row', tag', s') \<Longrightarrow>
     rows s' = rows s \<and> constraints s' = constraints s
     \<and> (\<not> strength cn < required \<longrightarrow> objective s' = objective s)
     \<and> sym_type (marker tag') \<noteq> Invalid"
  by (auto simp: createRow_symbols_def makeISymbol_def Let_def split: if_splits prod.splits)

lemma createRow_same:
  assumes "createRow cn s = (row, tag', s')"
  shows "rows s' = rows s \<and> constraints s' = constraints s
     \<and> (\<not> strength cn < required \<longrightarrow> objective s' = objective s)
     \<and> sym_type (marker tag') \<noteq> Invalid"
proof -
  obtain row1 s1 where t: "createRow_terms (expr_terms (expression cn))
             (Row_new (expr_constant (expression cn))) s = (row1, s1)"
    by (cases "createRow_terms (expr_terms (expression cn))
             (Row_new (expr_constant (expression cn))) s")
  obtain row2 tag2 s2 where y: "createRow_symbols cn row1 s1 = (row2, tag2, s2)"
    by (cases "createRow_symbols cn row1 s1")
  from assms t y have "tag' = tag2" "s' = s2"
    by (simp_all add: createRow_def)
  with createRow_terms_same [OF t] createRow_symbols_same [OF y] show ?thesis
    by simp
qed

lemma allDummies_error: "allDummies row = Inl e \<Longrightarrow> e = TypeError"
  by (auto simp: allDummies_def reduce_def split: list.splits)

lemma subjectFor_cases:
  "subjectFor row tag' = Inl e \<Longrightarrow> e = TypeError \<or> (e = UnsatisfiableConstraint \<and> allDummies row = Inr True)"
  by (auto simp: subjectFor_def Let_def split: sum.splits if_splits dest: allDummies_error)

lemma subjectFor_dummies:
  "allDummies row = Inr True \<Longrightarrow> subjectFor row tag' = Inr subject \<Longrightarrow> sym_type (marker tag') \<noteq> Invalid
    \<Longrightarrow> sym_type subject \<noteq> Invalid"
  by (auto simp: subjectFor_def Let_def split: sum.splits if_splits)

lemma addConstraint_failure:
  assumes "addConstraint cn s = Some (Inl e, s')"
  shows "e \<in> {DuplicateConstraint, UnsatisfiableConstraint, TypeError, UnboundedObjective, NonFinite}"
    and "e = DuplicateConstraint \<Longrightarrow> s' = s"
    and "e = UnsatisfiableConstraint \<Longrightarrow> allDummies (fst (createRow cn s)) = Inr True \<Longrightarrow>
           s' = snd (snd (createRow cn s))"
proof -
  obtain row tag' s1 where c: "createRow cn s = (row, tag', s1)"
    by (cases "createRow cn s")
  note mk = createRow_same [OF c]
  show "e \<in> {DuplicateConstraint, UnsatisfiableConstraint, TypeError, UnboundedObjective, NonFinite}"
    using assms c
    by (auto simp: addConstraint_def split: if_splits sum.splits option.splits prod.splits
        dest: subjectFor_cases solveFor_error addWithArtificialVariable_error optimize_error [where e = e])
  show "s' = s" if "e = DuplicateConstraint"
    using assms c that
    by (auto simp: addConstraint_def split: if_splits sum.splits option.splits prod.splits
        dest: subjectFor_cases solveFor_error addWithArtificialVariable_error optimize_error [where e = e])
  show "s' = snd (snd (createRow cn s))"
    if "e = UnsatisfiableConstraint" "allDummies (fst (createRow cn s)) = Inr True"
    using assms c that mk
    by (auto simp: addConstraint_def split: if_splits sum.splits option.splits prod.splits
        dest: subjectFor_cases subjectFor_dummies solveFor_error addWithArtificialVariable_error
          optimize_error [where e = e])
qed

lemma removeConstraint_failure:
  assumes "removeConstraint cn s = Some (Inl e, s')"
  shows "e \<in> {UnknownConstraint, FailedToFindLeavingRow, TypeError, UnboundedObjective, NonFinite}"
    and "e = UnknownConstraint \<Longrightarrow> s' = s"
  using assms
  by (auto simp: removeConstraint_def Let_def split: option.splits if_splits sum.splits
      dest: solveForEx_error optimize_error [where e = e])

lemma edit_constraint_built:
  "Expression_new [Var v] = Inr \<lparr>expr_terms = [(v, 1)], expr_constant = 0\<rparr>"
  "Constraint_new cid (Expr ex) op None str =
     Inr \<lparr>expression = ex, operator = op, strength = clip str, cn_id = cid\<rparr>"
  by (simp_all add: Expression_new_def parseArgs_def imap_setDefault_def Constraint_new_def)

lemma addEditVariable_cases:
  assumes "addEditVariable cid v str s = Some (Inl e, s')"
  shows "(e = DuplicateEditVariable \<and> s' = s) \<or> (e = BadRequiredStrength \<and> s' = s)
         \<or> e = TypeError
         \<or> (\<exists>cn. addConstraint cn s = Some (Inl e, s'))"
proof (cases "imap_find var_id v (edits s) \<noteq> None")
  case True
  with assms show ?thesis by (simp add: addEditVariable_def)
next
  case absent: False
  show ?thesis
  proof (cases "clip str = required")
    case True
    with assms absent show ?thesis by (simp add: addEditVariable_def)
  next
    case weaker: False
    let ?cn = "\<lparr>expression = \<lparr>expr_terms = [(v, 1)], expr_constant = 0\<rparr>, operator = Eq,
               strength = clip (clip str), cn_id = cid\<rparr>"
    show ?thesis
    proof (cases "addConstraint ?cn s")
      case None
      with assms absent weaker show ?thesis
        by (simp add: addEditVariable_def edit_constraint_built)
    next
      case (Some r)
      obtain res s1 where r: "r = (res, s1)" by (cases r)
      show ?thesis
      proof (cases res)
        case (Inl err)
        with assms absent weaker Some r have "err = e" "s1 = s'"
          by (simp_all add: addEditVariable_def edit_constraint_built)
        with Some r Inl show ?thesis by blast
      next
        case (Inr u)
        with assms absent weaker Some r show ?thesis
          by (cases "imap_find cn_id ?cn (constraints s1)")
             (simp_all add: addEditVariable_def edit_constraint_built)
      qed
    qed
  qed
qed

lemma addEditVariable_failure:
  assumes "addEditVariable cid v str s = Some (Inl e, s')"
  shows "e \<notin> {UnknownConstraint, UnknownEditVariable,
               ArrayLength, ArrayItem0, ArrayItem1, InvalidArgument}"
    and "e \<in> {DuplicateEditVariable, BadRequiredStrength, DuplicateConstraint} \<Longrightarrow> s' = s"
proof -
  from addEditVariable_cases [OF assms]
  show "e \<notin> {UnknownConstraint, UnknownEditVariable,
               ArrayLength, ArrayItem0, ArrayItem1, InvalidArgument}"
    using addConstraint_failure(1) by fastforce
  assume e: "e \<in> {DuplicateEditVariable, BadRequiredStrength, DuplicateConstraint}"
  from addEditVariable_cases [OF assms] consider
      "s' = s" | cn where "addConstraint cn s = Some (Inl e, s')"
    using e by auto
  then show "s' = s"
  proof cases
    case 2
    from addConstraint_failure(1) [OF 2] e have "e = DuplicateConstraint" by auto
    with addConstraint_failure(2) [OF 2] show ?thesis by simp
  qed
qed

lemma removeEditVariable_cases:
  assumes "removeEditVariable v s = Some (Inl e, s')"
  shows "(e = UnknownEditVariable \<and> s' = s)
         \<or> (\<exists>cn. removeConstraint cn (s\<lparr>edits := imap_erase var_id v (edits s)\<rparr>) = Some (Inl e, s'))"
  using assms by (cases "imap_find var_id v (edits s)") (auto simp: removeEditVariable_def)

lemma removeEditVariable_failure:
  assumes "removeEditVariable v s = Some (Inl e, s')"
  shows "e \<notin> {DuplicateConstraint, DuplicateEditVariable, BadRequiredStrength,
               ArrayLength, ArrayItem0, ArrayItem1, InvalidArgument}"
    and "e = UnknownEditVariable \<Longrightarrow> s' = s"
    and "e = UnknownConstraint \<Longrightarrow>
           rows s' = rows s \<and> objective s' = objective s \<and> constraints s' = constraints s"
proof -
  from removeEditVariable_cases [OF assms]
  show "e \<notin> {DuplicateConstraint, DuplicateEditVariable, BadRequiredStrength,
               ArrayLength, ArrayItem0, ArrayItem1, InvalidArgument}"
    using removeConstraint_failure(1) by fastforce
  from removeEditVariable_cases [OF assms]
  show "s' = s" if "e = UnknownEditVariable"
    using removeConstraint_failure(1) that by fastforce
  from removeEditVariable_cases [OF assms]
  show "rows s' = rows s \<and> objective s' = objective s \<and> constraints s' = constraints s"
    if "e = UnknownConstraint"
    using removeConstraint_failure(2) that by fastforce
qed

lemma suggestValue_failure:
  assumes "suggestValue v val s = Some (Inl e, s')"
  shows "e \<in> {UnknownEditVariable, TypeError, DualOptimizeFailed, NonFinite}"
    and "e = UnknownEditVariable \<Longrightarrow> s' = s"
  using assms
  by (auto simp: suggestValue_def Let_def split: option.splits prod.splits
      dest: dualOptimize_error [where e = e])

lemma parseArgs_loop_error:
  "parseArgs_loop args terms c = Inl e \<Longrightarrow>
     e \<in> {ArrayLength, ArrayItem0, ArrayItem1, InvalidArgument}"
  by (induction args terms c rule: parseArgs_loop.induct)
     (auto split: if_splits Arg.splits)

lemma Expression_minus_error:
  "Expression_minus this v = Inl e \<Longrightarrow>
     e \<in> {ArrayLength, ArrayItem0, ArrayItem1, InvalidArgument}"
  unfolding Expression_minus_def Expression_new_def parseArgs_def
  by (rule parseArgs_loop_error)

lemma Constraint_new_error:
  assumes "Constraint_new cid lhs op rhs str = Inl e"
  shows "e \<in> {ArrayLength, ArrayItem0, ArrayItem1, InvalidArgument}"
proof -
  from assms
  have "Expression_minus lhs (case rhs of None \<Rightarrow> Other | Some v \<Rightarrow> v) = Inl e"
    by (auto simp: Constraint_new_def split: option.splits Arg.splits sum.splits)
  then show ?thesis by (rule Expression_minus_error)
qed

lemma createConstraint_cases:
  assumes "createConstraint cid lhs op rhs str s = Some (Inl e, s')"
  shows "(e \<in> {ArrayLength, ArrayItem0, ArrayItem1, InvalidArgument} \<and> s' = s)
         \<or> (\<exists>cn. addConstraint cn s = Some (Inl e, s'))"
proof (cases "Constraint_new cid lhs op rhs str")
  case (Inl err)
  with assms have "err = e" "s' = s" by (simp_all add: createConstraint_def)
  with Inl Constraint_new_error show ?thesis by blast
next
  case (Inr cn)
  show ?thesis
  proof (cases "addConstraint cn s")
    case None
    with assms Inr show ?thesis by (simp add: createConstraint_def)
  next
    case (Some r)
    obtain res s1 where r: "r = (res, s1)" by (cases r)
    show ?thesis
    proof (cases res)
      case (Inl err)
      with assms Inr Some r have "err = e" "s1 = s'"
        by (simp_all add: createConstraint_def)
      with Some r Inl show ?thesis by blast
    next
      case (Inr u)
      with assms \<open>Constraint_new cid lhs op rhs str = Inr cn\<close> Some r show ?thesis
        by (simp add: createConstraint_def)
    qed
  qed
qed

lemma createConstraint_failure:
  assumes "createConstraint cid lhs op rhs str s = Some (Inl e, s')"
    and "e \<in> {DuplicateConstraint, UnknownConstraint, DuplicateEditVariable,
                 UnknownEditVariable, BadRequiredStrength,
                 ArrayLength, ArrayItem0, ArrayItem1, InvalidArgument}"
  shows "s' = s"
proof -
  from createConstraint_cases [OF assms(1)] consider
      "s' = s" | cn where "addConstraint cn s = Some (Inl e, s')"
    by blast
  then show ?thesis
  proof cases
    case 2
    from addConstraint_failure(1) [OF 2] assms(2) have "e = DuplicateConstraint" by auto
    with addConstraint_failure(2) [OF 2] show ?thesis by simp
  qed
qed

text \<open>
  Claim C3, amended: an operation that fails with DuplicateConstraint,
  UnknownConstraint, DuplicateEditVariable, UnknownEditVariable, BadRequiredStrength
  or one of the four errors of a malformed expression, and an \<open>addConstraint\<close> of a
  required constraint that fails with UnsatisfiableConstraint on a row made of dummy
  symbols only, leave the rows, the objective and the constraints as they were before
  the call.
\<close>

theorem early_failure_commits_nothing:
  assumes "addConstraint cn s = Some (Inl e, s') \<or> removeConstraint cn s = Some (Inl e, s')
           \<or> addEditVariable cid v str s = Some (Inl e, s') \<or> removeEditVariable v s = Some (Inl e, s')
           \<or> suggestValue v val s = Some (Inl e, s')
           \<or> createConstraint cid lhs op rhs str s = Some (Inl e, s')"
      and "e \<in> {DuplicateConstraint, UnknownConstraint, DuplicateEditVariable,
                 UnknownEditVariable, BadRequiredStrength,
                 ArrayLength, ArrayItem0, ArrayItem1, InvalidArgument}
           \<or> (e = UnsatisfiableConstraint \<and> addConstraint cn s = Some (Inl e, s')
               \<and> \<not> strength cn < required \<and> allDummies (fst (createRow cn s)) = Inr True)"
  shows "rows s' = rows s \<and> objective s' = objective s \<and> constraints s' = constraints s"
  using assms(2)
proof
  assume kind: "e \<in> {DuplicateConstraint, UnknownConstraint, DuplicateEditVariable,
                 UnknownEditVariable, BadRequiredStrength,
                 ArrayLength, ArrayItem0, ArrayItem1, InvalidArgument}"
  from assms(1) consider
      (addC) "addConstraint cn s = Some (Inl e, s')"
    | (remC) "removeConstraint cn s = Some (Inl e, s')"
    | (addE) "addEditVariable cid v str s = Some (Inl e, s')"
    | (remE) "removeEditVariable v s = Some (Inl e, s')"
    | (sugg) "suggestValue v val s = Some (Inl e, s')"
    | (crea) "createConstraint cid lhs op rhs str s = Some (Inl e, s')"
    by blast
  then show ?thesis
  proof cases
    case addC
    from addConstraint_failure(1) [OF addC] kind have "e = DuplicateConstraint" by auto
    with addConstraint_failure(2) [OF addC] show ?thesis by simp
  next
    case remC
    from removeConstraint_failure(1) [OF remC] kind have "e = UnknownConstraint" by auto
    with removeConstraint_failure(2) [OF remC] show ?thesis by simp
  next
    case addE
    from addEditVariable_failure(1) [OF addE] kind
    have "e \<in> {DuplicateEditVariable, BadRequiredStrength, DuplicateConstraint}" by auto
    with addEditVariable_failure(2) [OF addE] show ?thesis by simp
  next
    case remE
    from removeEditVariable_failure(1) [OF remE] kind
    have "e = UnknownEditVariable \<or> e = UnknownConstraint" by auto
    with removeEditVariable_failure(2,3) [OF remE] show ?thesis by auto
  next
    case sugg
    from suggestValue_failure(1) [OF sugg] kind have "e = UnknownEditVariable" by auto
    with suggestValue_failure(2) [OF sugg] show ?thesis by simp
  next
    case crea
    from createConstraint_failure [OF crea kind] show ?thesis by simp
  qed
next
  assume dummies: "e = UnsatisfiableConstraint \<and> addConstraint cn s = Some (Inl e, s')
               \<and> \<not> strength cn < required \<and> allDummies (fst (createRow cn s)) = Inr True"
  then have s': "s' = snd (snd (createRow cn s))"
    using addConstraint_failure(3) by blast
  obtain row tag' s1 where c: "createRow cn s = (row, tag', s1)"
    by (cases "createRow cn s")
  from createRow_same [OF c] dummies s' c show ?thesis by simp
qed

text \<open>
  Two uses on the solver that holds the required \<open>x = 10\<close>: the required \<open>x = 20\<close> is
  refused on its row of dummies, and \<open>createConstraint(x, Le, undefined)\<close> is refused
  by the \<open>Expression\<close> constructor.
\<close>

theorem early_failure_commits_nothing_witness:
  "addConstraint (bound 1 Eq 20 required) one_equality
     = Some (Inl UnsatisfiableConstraint, after_conflict)
   \<and> rows after_conflict = rows one_equality
   \<and> objective after_conflict = objective one_equality
   \<and> constraints after_conflict = constraints one_equality
   \<and> createConstraint 1 (Var var_x) Le None required one_equality
       = Some (Inl ArrayItem1, one_equality)"
proof -
  have fails: "addConstraint (bound 1 Eq 20 required) one_equality
     = Some (Inl UnsatisfiableConstraint, after_conflict)"
    by code_simp
  have req: "\<not> strength (bound 1 Eq 20 required) < required"
    by (simp add: bound_def)
  have dummies: "allDummies (fst (createRow (bound 1 Eq 20 required) one_equality)) = Inr True"
    by code_simp
  from fails req dummies
  have same: "rows after_conflict = rows one_equality
        \<and> objective after_conflict = objective one_equality
        \<and> constraints after_conflict = constraints one_equality"
    using early_failure_commits_nothing
      [where cn = "bound 1 Eq 20 required" and s = one_equality
         and e = UnsatisfiableConstraint and s' = after_conflict
         and cid = 0 and v = var_x and str = 0 and val = 0
         and lhs = "Var var_x" and op = Eq and rhs = "Some (Num 20)"]
    by blast
  have malformed: "createConstraint 1 (Var var_x) Le None required one_equality
       = Some (Inl ArrayItem1, one_equality)"
    by code_simp
  from fails same malformed show ?thesis by simp
qed

end
